theory Spec2Isabelle
  imports Main
begin

section \<open>JavaScript values\<close>

text \<open>
  The client of \<^verbatim>\<open>lib/rpc-client/client.js\<close> handles JavaScript values it never looks
  into: call arguments, routing hints, server ids, completion handlers, filters. They are
  values of one datatype. A function value is \<open>JFun k\<close>, \<open>k\<close> its identity; an
  \<^verbatim>\<open>Error\<close> object is \<open>JErr\<close> of its message; an object literal is \<open>JObj\<close> of its
  properties in the order they are written. Numbers are integers here (no \<^verbatim>\<open>NaN\<close>).
\<close>

datatype jsval =
    JUndefined
  | JNull
  | JBool bool
  | JNum int
  | JStr string
  | JErr string
  | JFun nat
  | JArr "jsval list"
  | JObj "(string \<times> jsval) list"

text \<open>What \<^verbatim>\<open>if(v)\<close> and \<^verbatim>\<open>v || w\<close> test.\<close>

fun truthy :: "jsval \<Rightarrow> bool" where
  "truthy JUndefined = False"
| "truthy JNull = False"
| "truthy (JBool b) = b"
| "truthy (JNum n) = (n \<noteq> 0)"
| "truthy (JStr s) = (s \<noteq> [])"
| "truthy (JErr m) = True"
| "truthy (JFun k) = True"
| "truthy (JArr xs) = True"
| "truthy (JObj kvs) = True"

text \<open>
  \<^verbatim>\<open>Array.prototype.shift\<close> and \<^verbatim>\<open>pop\<close>: the element taken off and the array that is
  left; on an empty array the element is \<^verbatim>\<open>undefined\<close>.
\<close>

definition shift :: "jsval list \<Rightarrow> jsval \<times> jsval list" where
  "shift xs = (case xs of [] \<Rightarrow> (JUndefined, []) | x # rest \<Rightarrow> (x, rest))"

fun pop :: "jsval list \<Rightarrow> jsval \<times> jsval list" where
  "pop [] = (JUndefined, [])"
| "pop [x] = (x, [])"
| "pop (x # y # ys) = (case pop (y # ys) of (l, rest) \<Rightarrow> (l, x # rest))"

datatype error = Error string | TypeError string

section \<open>The client and what it does to its collaborators\<close>

text \<open>Client states (lines 19-21); the source compares them as numbers.\<close>

definition STATE_INITED :: int where
  "STATE_INITED = 1"

definition STATE_STARTED :: int where
  "STATE_STARTED = 2"

definition STATE_CLOSED :: int where
  "STATE_CLOSED = 3"

text \<open>
  One entry of \<^verbatim>\<open>opts.paths\<close>, \<^verbatim>\<open>{namespace, serverType, path}\<close>. The loader hands the
  entry on as the \<^verbatim>\<open>attach\<close> of every stub it builds from it, and the stub passes it to
  \<^verbatim>\<open>proxyCB\<close>.
\<close>

record item =
  namespace :: string
  serverType :: string
  path :: string

text \<open>
  The registry \<^verbatim>\<open>proxies\<close>: namespace, then server type, then what the loader
  returned for the entry. The map holds the own properties of the object \<^verbatim>\<open>proxies\<close> and
  of the namespace objects in it.
\<close>

type_synonym registry = "string \<rightharpoonup> (string \<rightharpoonup> jsval)"

text \<open>
  \<^verbatim>\<open>proxies\<close> and the namespace objects are plain objects (\<^verbatim>\<open>{}\<close>, lines 133 and 184), so
  a name they do not own is answered by \<^verbatim>\<open>Object.prototype\<close>. These are the names
  \<^verbatim>\<open>Object.prototype\<close> has, as the language defines it; \<^verbatim>\<open>__proto__\<close> reads and
  replaces the prototype itself. Reading or assigning such a name does not act on own
  properties alone: \<^verbatim>\<open>proxies['__proto__']['chat'] = m\<close> writes
  \<^verbatim>\<open>Object.prototype.chat\<close>, \<^verbatim>\<open>proxies['constructor'] || {}\<close> is the inherited function.
  A name is plain when it is none of them. The map describes the code for plain
  namespaces and server types only, and nothing is claimed about the others.
\<close>

definition prototype_names :: "string list" where
  "prototype_names =
     [''__proto__'', ''constructor'', ''hasOwnProperty'', ''isPrototypeOf'',
      ''propertyIsEnumerable'', ''toLocaleString'', ''toString'', ''valueOf'',
      ''__defineGetter__'', ''__defineSetter__'', ''__lookupGetter__'', ''__lookupSetter__'']"

definition plain :: "string \<Rightarrow> bool" where
  "plain n = (n \<notin> set prototype_names)"

definition plain_item :: "item \<Rightarrow> bool" where
  "plain_item it = (plain (namespace it) \<and> plain (serverType it))"

text \<open>
  The constructor's argument. A field that is missing reads as \<^verbatim>\<open>undefined\<close>;
  \<open>opts_paths = None\<close> is a missing \<^verbatim>\<open>paths\<close>.
\<close>

record opts =
  opts_servers :: jsval
  opts_context :: jsval
  opts_router :: jsval
  opts_mailboxFactory :: jsval
  opts_paths :: "item list option"

record client =
  c_servers :: jsval
  c_context :: jsval
  router :: jsval
  c_mailboxFactory :: jsval
  proxies :: registry
  state :: int

text \<open>
  The station (\<^verbatim>\<open>./mailstation\<close>), the router, \<^verbatim>\<open>utils.invokeCallback\<close> and the console
  are outside this file. Every call the client makes to one of them is an event, listed in
  program order together with the assignments to \<^verbatim>\<open>this.state\<close>. A function the client
  passes to a collaborator is named by what it captured: the closure given to
  \<^verbatim>\<open>_station.start\<close> by the caller's \<^verbatim>\<open>cb\<close>, the closure given to \<^verbatim>\<open>router.route\<close> by
  \<^verbatim>\<open>msg\<close> and \<^verbatim>\<open>cb\<close>.
\<close>

datatype event =
    StateSet int
  | InvokeCallback jsval "jsval list"
  | ConsoleError string "jsval list"
  | ConsoleWarn string
  | StationCreate jsval jsval
  | StationStart jsval
  | StationStop jsval
  | StationDispatch jsval jsval jsval jsval
  | StationBefore jsval
  | StationAfter jsval
  | RouterRoute jsval jsval jsval jsval
  | StationReply jsval "jsval list"
  | Thrown error

subsection \<open>Lifecycle (lines 45-106)\<close>

text \<open>\<^verbatim>\<open>pro.start\<close>, up to the call of \<^verbatim>\<open>this._station.start\<close>.\<close>

definition start :: "client \<Rightarrow> jsval \<Rightarrow> event list \<times> client" where
  "start c cb =
     (if state c > STATE_INITED
      then ([InvokeCallback cb [JErr ''rpc client has started.'']], c)
      else ([StationStart cb], c))"

text \<open>
  The function \<^verbatim>\<open>start\<close> gives to the station (lines 52-60), run when the station
  calls it with \<^verbatim>\<open>err\<close>. The logged text ends with \<^verbatim>\<open>err.stack\<close>; the event keeps
  \<^verbatim>\<open>err\<close>.
\<close>

definition start_done :: "client \<Rightarrow> jsval \<Rightarrow> jsval \<Rightarrow> event list \<times> client" where
  "start_done c cb err =
     (if truthy err
      then ([ConsoleError ''[pomelo-rpc] client start fail for '' [err],
             InvokeCallback cb [err]], c)
      else ([StateSet STATE_STARTED, InvokeCallback cb []], c\<lparr>state := STATE_STARTED\<rparr>))"

definition stop :: "client \<Rightarrow> jsval \<Rightarrow> event list \<times> client" where
  "stop c force =
     (if state c \<noteq> STATE_STARTED
      then ([ConsoleWarn ''[pomelo-rpc] client is not running now.''], c)
      else ([StateSet STATE_CLOSED, StationStop force], c\<lparr>state := STATE_CLOSED\<rparr>))"

definition rpcInvoke ::
  "client \<Rightarrow> jsval \<Rightarrow> jsval \<Rightarrow> jsval \<Rightarrow> error + event list \<times> client" where
  "rpcInvoke c serverId msg cb =
     (if state c \<noteq> STATE_STARTED
      then Inl (Error ''[pomelo-rpc] fail to do rpc invoke for client is not running'')
      else Inr ([StationDispatch serverId msg JNull cb], c))"

definition before :: "client \<Rightarrow> jsval \<Rightarrow> event list \<times> client" where
  "before c flt = ([StationBefore flt], c)"

definition after :: "client \<Rightarrow> jsval \<Rightarrow> event list \<times> client" where
  "after c flt = ([StationAfter flt], c)"

subsection \<open>Interception (lines 135-159)\<close>

text \<open>
  \<^verbatim>\<open>proxyCB\<close>, up to the call of \<^verbatim>\<open>client.router.route\<close>. The fifth parameter
  \<^verbatim>\<open>invoke\<close> is never used by the source.
\<close>

definition proxyCB ::
  "client \<Rightarrow> string \<Rightarrow> string \<Rightarrow> jsval list \<Rightarrow> item \<Rightarrow> error + event list \<times> client" where
  "proxyCB c serviceName methodName args attach =
     (if state c \<noteq> STATE_STARTED
      then Inl (Error ''[pomelo-rpc] fail to invoke rpc proxy for client is not running'')
      else if length args < 2
      then Inr ([ConsoleError
                  ''[pomelo-rpc] invalid rpc invoke, arguments length less than 2, namespace: %j, serverType, %j, serviceName: %j, methodName: %j''
                  [JStr (namespace attach), JStr (serverType attach),
                   JStr serviceName, JStr methodName]], c)
      else
        (case shift args of (routeParam, args1) \<Rightarrow>
         case pop args1 of (cb, args2) \<Rightarrow>
           Inr ([RouterRoute
                   (JObj [(''namespace'', JStr (namespace attach)),
                          (''serverType'', JStr (serverType attach)),
                          (''service'', JStr serviceName),
                          (''method'', JStr methodName),
                          (''args'', JArr args2)])
                   routeParam (c_servers c) cb], c)))"

text \<open>
  The function \<^verbatim>\<open>proxyCB\<close> gives to the router (lines 151-158), run when the router
  calls it with \<^verbatim>\<open>err\<close> and \<^verbatim>\<open>serverId\<close>. It reads the client as it is at that moment.
\<close>

definition route_done ::
  "client \<Rightarrow> jsval \<Rightarrow> jsval \<Rightarrow> jsval \<Rightarrow> jsval \<Rightarrow> error + event list \<times> client" where
  "route_done c msg cb err serverId =
     (if truthy err then Inr ([InvokeCallback cb [err]], c)
      else rpcInvoke c serverId msg cb)"

subsection \<open>Construction (lines 26-35, 115-120, 132-185, 220-222)\<close>

text \<open>
  \<^verbatim>\<open>proxies[namespace] = proxies[namespace] || {}\<close>, for a plain namespace: the read finds
  the own property or \<^verbatim>\<open>undefined\<close>, and a namespace object is truthy.
\<close>

definition createNamespace :: "string \<Rightarrow> registry \<Rightarrow> registry" where
  "createNamespace ns P = P(ns \<mapsto> (case P ns of Some r \<Rightarrow> r | None \<Rightarrow> Map.empty))"

text \<open>
  The loop of \<^verbatim>\<open>generateProxies\<close> (lines 171-178). \<^verbatim>\<open>Loader.load\<close> (package
  \<^verbatim>\<open>pomelo-loader\<close>) is the parameter \<open>load\<close>, applied to the path, the context and the
  entry; the fourth argument \<^verbatim>\<open>loadedCB\<close> is the same function at every call. The
  assignment \<^verbatim>\<open>proxies[ns][type] = m\<close> raises a \<^verbatim>\<open>TypeError\<close> when \<^verbatim>\<open>proxies[ns]\<close> is
  missing. The loop is the code's for entries whose namespace and server type are plain
  (\<open>plain_item\<close>).
\<close>

fun generate_loop ::
  "(string \<Rightarrow> jsval \<Rightarrow> item \<Rightarrow> jsval) \<Rightarrow> jsval \<Rightarrow> item list \<Rightarrow> registry \<Rightarrow> error + registry" where
  "generate_loop load ctx [] P = Inr P"
| "generate_loop load ctx (it # its) P =
     (let m = load (path it) ctx it in
      if truthy m
      then (let P1 = createNamespace (namespace it) P in
            case P1 (namespace it) of
              None \<Rightarrow> Inl (TypeError ''Cannot set property of undefined'')
            | Some r \<Rightarrow> generate_loop load ctx its (P1(namespace it \<mapsto> r(serverType it \<mapsto> m))))
      else generate_loop load ctx its P)"

text \<open>\<^verbatim>\<open>paths.length\<close> of a missing \<^verbatim>\<open>paths\<close> raises a \<^verbatim>\<open>TypeError\<close>.\<close>

definition generateProxies ::
  "(string \<Rightarrow> jsval \<Rightarrow> item \<Rightarrow> jsval) \<Rightarrow> item list option \<Rightarrow> jsval \<Rightarrow> error + registry" where
  "generateProxies load paths ctx =
     (case paths of
        None \<Rightarrow> Inl (TypeError ''Cannot read property length of undefined'')
      | Some ps \<Rightarrow> generate_loop load ctx ps Map.empty)"

text \<open>
  The constructor \<^verbatim>\<open>Client\<close>. \<open>router_module\<close> is what \<^verbatim>\<open>require('./router')\<close> gives.
  The constructor passes \<^verbatim>\<open>this.context\<close> to \<^verbatim>\<open>generateProxies\<close>, a property it never
  assigns (it assigns \<^verbatim>\<open>this._context\<close>), so the loader is given \<^verbatim>\<open>undefined\<close>.
  \<^verbatim>\<open>createStation\<close> is the one call \<^verbatim>\<open>Station.create\<close>; it is made (line 32) before
  \<^verbatim>\<open>generateProxies\<close> runs (line 33), so an error thrown there comes after it.
\<close>

definition Client ::
  "(string \<Rightarrow> jsval \<Rightarrow> item \<Rightarrow> jsval) \<Rightarrow> jsval \<Rightarrow> opts \<Rightarrow>
     event list \<times> error + event list \<times> client" where
  "Client load router_module os =
     (case generateProxies load (opts_paths os) JUndefined of
        Inl e \<Rightarrow> Inl ([StationCreate (opts_servers os) (opts_mailboxFactory os)], e)
      | Inr P \<Rightarrow>
          Inr ([StationCreate (opts_servers os) (opts_mailboxFactory os),
                StateSet STATE_INITED],
               \<lparr>c_servers = opts_servers os,
                c_context = opts_context os,
                router = (if truthy (opts_router os) then opts_router os else router_module),
                c_mailboxFactory = opts_mailboxFactory os,
                proxies = P,
                state = STATE_INITED\<rparr>))"

text \<open>
  \<^verbatim>\<open>module.exports.create\<close> is \<^verbatim>\<open>new Client(opts)\<close> and nothing else. The source also
  defines \<^verbatim>\<open>checkParams\<close> (lines 192-207), which no function calls.
\<close>

definition create ::
  "(string \<Rightarrow> jsval \<Rightarrow> item \<Rightarrow> jsval) \<Rightarrow> jsval \<Rightarrow> opts \<Rightarrow>
     event list \<times> error + event list \<times> client" where
  "create load router_module os = Client load router_module os"

section \<open>Runs\<close>

text \<open>
  What can happen to a client: the application calls one of its operations or a stub, or a
  collaborator calls a function the client gave it earlier. \<open>StartDone cb err\<close> is the
  station calling the closure of a \<^verbatim>\<open>start(cb)\<close>; \<open>RouteDone msg cb err serverId\<close> is the
  router calling the closure of a stub call; \<open>Reply cb args\<close> is the station calling a
  handler it received through \<^verbatim>\<open>dispatch\<close>. In the source every call to a collaborator and
  every call of a handler is the last statement of its function, so a collaborator that
  answers before it returns gives the same run as one that answers right afterwards.
\<close>

datatype op =
    Start jsval
  | Stop jsval
  | RpcInvoke jsval jsval jsval
  | Before jsval
  | After jsval
  | Stub item string string "jsval list"
  | StartDone jsval jsval
  | RouteDone jsval jsval jsval jsval
  | Reply jsval "jsval list"

type_synonym world = "client \<times> event list"

text \<open>A collaborator can only call a function it holds.\<close>

fun holds_start :: "jsval \<Rightarrow> event \<Rightarrow> bool" where
  "holds_start cb (StationStart k) = (k = cb)"
| "holds_start cb _ = False"

fun holds_route :: "jsval \<Rightarrow> jsval \<Rightarrow> event \<Rightarrow> bool" where
  "holds_route msg cb (RouterRoute m h s k) = (m = msg \<and> k = cb)"
| "holds_route msg cb _ = False"

fun holds_handler :: "jsval \<Rightarrow> event \<Rightarrow> bool" where
  "holds_handler cb (StationDispatch i m o' k) = (k = cb)"
| "holds_handler cb _ = False"

fun enabled :: "event list \<Rightarrow> op \<Rightarrow> bool" where
  "enabled log (StartDone cb err) = list_ex (holds_start cb) log"
| "enabled log (RouteDone msg cb err serverId) = list_ex (holds_route msg cb) log"
| "enabled log (Reply cb args) = list_ex (holds_handler cb) log"
| "enabled log _ = True"

fun perform :: "client \<Rightarrow> op \<Rightarrow> error + event list \<times> client" where
  "perform c (Start cb) = Inr (start c cb)"
| "perform c (Stop force) = Inr (stop c force)"
| "perform c (RpcInvoke serverId msg cb) = rpcInvoke c serverId msg cb"
| "perform c (Before flt) = Inr (before c flt)"
| "perform c (After flt) = Inr (after c flt)"
| "perform c (Stub attach serviceName methodName args) =
     proxyCB c serviceName methodName args attach"
| "perform c (StartDone cb err) = Inr (start_done c cb err)"
| "perform c (RouteDone msg cb err serverId) = route_done c msg cb err serverId"
| "perform c (Reply cb args) = Inr ([StationReply cb args], c)"

text \<open>
  One step: the events it adds and the client afterwards. An error thrown leaves the
  client as it was and is recorded; later steps still run.
\<close>

definition step :: "world \<Rightarrow> op \<Rightarrow> (event list \<times> client) option" where
  "step w x =
     (if enabled (snd w) x
      then Some (case perform (fst w) x of
                   Inl e \<Rightarrow> ([Thrown e], fst w)
                 | Inr r \<Rightarrow> r)
      else None)"

fun run :: "world \<Rightarrow> op list \<Rightarrow> world option" where
  "run w [] = Some w"
| "run w (x # xs) =
     (case step w x of
        None \<Rightarrow> None
      | Some (evs, c') \<Rightarrow> run (c', snd w @ evs) xs)"

text \<open>The state before the run and after each of its steps.\<close>

fun history :: "world \<Rightarrow> op list \<Rightarrow> int list" where
  "history w [] = [state (fst w)]"
| "history w (x # xs) =
     state (fst w) #
     (case step w x of
        None \<Rightarrow> []
      | Some (evs, c') \<Rightarrow> history (c', snd w @ evs) xs)"

text \<open>
  Collaborators given as functions: \<open>env e\<close> is what they do in answer to the event
  \<open>e\<close>, and it runs before anything else. The number bounds the steps taken.
\<close>

fun drive :: "(event \<Rightarrow> op list) \<Rightarrow> nat \<Rightarrow> world \<Rightarrow> op list \<Rightarrow> world option" where
  "drive env n w [] = Some w"
| "drive env 0 w (x # xs) = None"
| "drive env (Suc n) w (x # xs) =
     (case step w x of
        None \<Rightarrow> None
      | Some (evs, c') \<Rightarrow> drive env n (c', snd w @ evs) (concat (map env evs) @ xs))"

section \<open>Notions the properties are stated with\<close>

subsection \<open>The lifecycle along a run\<close>

fun start_succeeded :: "op \<Rightarrow> bool" where
  "start_succeeded (StartDone cb err) = (\<not> truthy err)"
| "start_succeeded _ = False"

fun is_stop :: "op \<Rightarrow> bool" where
  "is_stop (Stop force) = True"
| "is_stop _ = False"

text \<open>How many times the station reports a successful start in a run.\<close>

definition successes :: "op list \<Rightarrow> nat" where
  "successes xs = length (filter start_succeeded xs)"

text \<open>
  A step is forward when it leaves the state alone, or takes it from \<open>INITED\<close> to
  \<open>STARTED\<close> by a successful start completion, or from \<open>STARTED\<close> to \<open>CLOSED\<close> by a
  \<^verbatim>\<open>stop\<close>.
\<close>

definition forward :: "int \<Rightarrow> op \<Rightarrow> int \<Rightarrow> bool" where
  "forward s x s' =
     (s' = s \<or>
      (s = STATE_INITED \<and> s' = STATE_STARTED \<and> start_succeeded x) \<or>
      (s = STATE_STARTED \<and> s' = STATE_CLOSED \<and> is_stop x))"

fun forward_run :: "world \<Rightarrow> op list \<Rightarrow> bool" where
  "forward_run w [] = True"
| "forward_run w (x # xs) =
     (case step w x of
        None \<Rightarrow> False
      | Some (evs, c') \<Rightarrow>
          forward (state (fst w)) x (state c') \<and> forward_run (c', snd w @ evs) xs)"

text \<open>
  The invariant behind the lifecycle proof: a client that has left \<open>INITED\<close> has used up
  the one successful start completion.
\<close>

definition lifecycle :: "int \<Rightarrow> nat \<Rightarrow> bool" where
  "lifecycle s n =
     ((s = STATE_INITED \<and> n \<le> 1) \<or> ((s = STATE_STARTED \<or> s = STATE_CLOSED) \<and> n = 0))"

subsection \<open>The completion handler\<close>

text \<open>
  The client passes a handler on when it gives it to \<^verbatim>\<open>utils.invokeCallback\<close>, which
  calls it, or to the station's \<^verbatim>\<open>dispatch\<close> as the completion argument, which calls it
  with the outcome of the call.
\<close>

fun hands_over :: "jsval \<Rightarrow> event \<Rightarrow> bool" where
  "hands_over cb (InvokeCallback k args) = (k = cb)"
| "hands_over cb (StationDispatch i m os k) = (k = cb)"
| "hands_over cb _ = False"

definition handed :: "jsval \<Rightarrow> event list \<Rightarrow> nat" where
  "handed cb evs = length (filter (hands_over cb) evs)"

subsection \<open>The registry\<close>

text \<open>The entry \<^verbatim>\<open>registry[ns][type]\<close>, \<open>None\<close> when there is none.\<close>

definition stub_at :: "registry \<Rightarrow> string \<Rightarrow> string \<Rightarrow> jsval option" where
  "stub_at P ns ty = (case P ns of None \<Rightarrow> None | Some r \<Rightarrow> r ty)"

text \<open>An entry of the paths list that stores something at \<^verbatim>\<open>registry[ns][type]\<close>.\<close>

definition provides ::
  "(string \<Rightarrow> jsval \<Rightarrow> item \<Rightarrow> jsval) \<Rightarrow> jsval \<Rightarrow> string \<Rightarrow> string \<Rightarrow> item \<Rightarrow> bool" where
  "provides load ctx ns ty it =
     (namespace it = ns \<and> serverType it = ty \<and> truthy (load (path it) ctx it))"

text \<open>What the last such entry of a list stores there.\<close>

fun latest ::
  "(string \<Rightarrow> jsval \<Rightarrow> item \<Rightarrow> jsval) \<Rightarrow> jsval \<Rightarrow> string \<Rightarrow> string \<Rightarrow> item list \<Rightarrow> jsval option" where
  "latest load ctx ns ty [] = None"
| "latest load ctx ns ty (it # its) =
     (case latest load ctx ns ty its of
        Some m \<Rightarrow> Some m
      | None \<Rightarrow> if provides load ctx ns ty it then Some (load (path it) ctx it) else None)"

definition entry_after ::
  "(string \<Rightarrow> jsval \<Rightarrow> item \<Rightarrow> jsval) \<Rightarrow> item list \<Rightarrow> string \<Rightarrow> string \<Rightarrow> jsval option" where
  "entry_after load its ns ty =
     (case generateProxies load (Some its) JUndefined of
        Inl e \<Rightarrow> None
      | Inr P \<Rightarrow> stub_at P ns ty)"

subsection \<open>The collaborators of the round trip\<close>

text \<open>
  A router that answers every \<^verbatim>\<open>route\<close> with no error and one fixed server id, and a
  station that answers every \<^verbatim>\<open>dispatch\<close> by calling the handler with the server id and
  the message it was given.
\<close>

definition router_stub :: "jsval \<Rightarrow> event \<Rightarrow> op list" where
  "router_stub serverId e =
     (case e of RouterRoute msg hint srv cb \<Rightarrow> [RouteDone msg cb JNull serverId] | _ \<Rightarrow> [])"

definition station_stub :: "event \<Rightarrow> op list" where
  "station_stub e =
     (case e of StationDispatch serverId msg os cb \<Rightarrow> [Reply cb [serverId, msg]] | _ \<Rightarrow> [])"

definition echo_env :: "jsval \<Rightarrow> event \<Rightarrow> op list" where
  "echo_env serverId e = router_stub serverId e @ station_stub e"

subsection \<open>Concrete inputs\<close>

text \<open>
  A loader that finds one service at every path but \<^verbatim>\<open>/missing\<close>; options with one
  chat server and an empty paths list; the client \<^verbatim>\<open>create\<close> builds from them, in a given
  state; entries of a paths list; runs.
\<close>

definition sample_load :: "string \<Rightarrow> jsval \<Rightarrow> item \<Rightarrow> jsval" where
  "sample_load p ctx it = (if p = ''/missing'' then JUndefined else JObj [(p, JFun 0)])"

definition sample_opts :: opts where
  "sample_opts =
     \<lparr>opts_servers = JObj [(''chat'', JArr [JObj [(''id'', JStr ''chat-1'')]])],
      opts_context = JUndefined,
      opts_router = JUndefined,
      opts_mailboxFactory = JUndefined,
      opts_paths = Some []\<rparr>"

definition sample_client :: "int \<Rightarrow> client" where
  "sample_client s =
     \<lparr>c_servers = JObj [(''chat'', JArr [JObj [(''id'', JStr ''chat-1'')]])],
      c_context = JUndefined,
      router = JFun 0,
      c_mailboxFactory = JUndefined,
      proxies = Map.empty,
      state = s\<rparr>"

definition item_a :: item where
  "item_a = \<lparr>namespace = ''user'', serverType = ''chat'', path = ''/a''\<rparr>"

definition item_b :: item where
  "item_b = \<lparr>namespace = ''user'', serverType = ''chat'', path = ''/b''\<rparr>"

definition item_c :: item where
  "item_c = \<lparr>namespace = ''sys'', serverType = ''chat'', path = ''/c''\<rparr>"

definition registry_a :: registry where
  "registry_a = [''user'' \<mapsto> [''chat'' \<mapsto> JObj [(''/a'', JFun 0)]]]"

text \<open>
  Two calls of \<^verbatim>\<open>start\<close> before the station has answered the first; the station then
  answers the first, the application stops the client, and the station answers the second.
\<close>

definition double_start :: "op list" where
  "double_start =
     [Start (JFun 1), Start (JFun 2), StartDone (JFun 1) JUndefined,
      Stop (JBool False), StartDone (JFun 2) JUndefined]"

definition single_start :: "op list" where
  "single_start =
     [Start (JFun 1), Stop (JBool True), StartDone (JFun 1) JUndefined, Before (JFun 3),
      Start (JFun 2), Stop (JBool False), Stop (JBool True)]"

text \<open>
  A stub call with a hint and a handler, a \<^verbatim>\<open>stop\<close> while the router is still working,
  and then the router's answer with a server id.
\<close>

definition stopped_in_flight :: "op list" where
  "stopped_in_flight =
     [Stub item_a ''chatRemote'' ''add'' [JNum 7, JFun 1],
      Stop (JBool False),
      RouteDone
        (JObj [(''namespace'', JStr ''user''), (''serverType'', JStr ''chat''),
               (''service'', JStr ''chatRemote''), (''method'', JStr ''add''),
               (''args'', JArr [])])
        (JFun 1) JNull (JStr ''chat-1'')]"

section \<open>Auxiliary facts\<close>

lemmas state_defs = STATE_INITED_def STATE_STARTED_def STATE_CLOSED_def

lemmas op_defs = start_def start_done_def stop_def rpcInvoke_def before_def after_def
  proxyCB_def route_done_def

lemma pop_snoc: "pop (xs @ [x]) = (x, xs)"
  by (induction xs rule: pop.induct) auto

lemma shift_Cons: "shift (x # xs) = (x, xs)"
  by (simp add: shift_def)

lemma two_or_more: "2 \<le> length (args :: 'a list) \<Longrightarrow> \<exists>h mid l. args = h # mid @ [l]"
proof -
  assume a: "2 \<le> length args"
  then obtain h t where ht: "args = h # t" by (cases args) auto
  with a have "t \<noteq> []" by auto
  then obtain mid l where "t = mid @ [l]" by (metis rev_exhaust)
  with ht show ?thesis by blast
qed

lemma proxyCB_route:
  "state c = STATE_STARTED \<Longrightarrow>
   proxyCB c sv me (h # mid @ [l]) att =
     Inr ([RouterRoute
             (JObj [(''namespace'', JStr (namespace att)),
                    (''serverType'', JStr (serverType att)),
                    (''service'', JStr sv),
                    (''method'', JStr me),
                    (''args'', JArr mid)])
             h (c_servers c) l], c)"
  by (simp add: proxyCB_def shift_Cons pop_snoc)

lemma create_state: "create load rm os = Inr (evs0, c) \<Longrightarrow> state c = STATE_INITED"
  by (auto simp: create_def Client_def split: sum.splits)

lemma step_state:
  "step w x = Some (evs, c') \<Longrightarrow>
   state c' = state (fst w) \<or>
   (start_succeeded x \<and> state c' = STATE_STARTED) \<or>
   (is_stop x \<and> state (fst w) = STATE_STARTED \<and> state c' = STATE_CLOSED)"
  by (cases x) (auto simp: step_def op_defs split: if_splits sum.splits prod.splits)

lemma step_proxies: "step w x = Some (evs, c') \<Longrightarrow> proxies c' = proxies (fst w)"
  by (cases x) (auto simp: step_def op_defs split: if_splits sum.splits prod.splits)

lemma successes_Cons:
  "successes (x # xs) = (if start_succeeded x then Suc (successes xs) else successes xs)"
  by (simp add: successes_def)

lemma forward_run_lifecycle:
  "run w xs \<noteq> None \<Longrightarrow> lifecycle (state (fst w)) (successes xs) \<Longrightarrow> forward_run w xs"
proof (induction xs arbitrary: w)
  case Nil
  show ?case by simp
next
  case (Cons x xs)
  from Cons.prems(1) obtain evs c' where st: "step w x = Some (evs, c')"
    by (cases "step w x") auto
  with Cons.prems(1) have r: "run (c', snd w @ evs) xs \<noteq> None" by simp
  from step_state [OF st] Cons.prems(2)
  have f: "forward (state (fst w)) x (state c')"
    and l: "lifecycle (state c') (successes xs)"
    by (auto simp: lifecycle_def forward_def successes_Cons state_defs split: if_splits)
  from Cons.IH r l have "forward_run (c', snd w @ evs) xs" by simp
  with st f show ?case by simp
qed

lemma forward_le: "forward s x s' \<Longrightarrow> s \<le> s'"
  by (auto simp: forward_def state_defs)

lemma forward_run_history:
  "forward_run w xs \<Longrightarrow> (\<forall>s \<in> set (history w xs). state (fst w) \<le> s) \<and> sorted (history w xs)"
proof (induction xs arbitrary: w)
  case Nil
  show ?case by simp
next
  case (Cons x xs)
  from Cons.prems obtain evs c' where st: "step w x = Some (evs, c')"
    and f: "forward (state (fst w)) x (state c')"
    and fr: "forward_run (c', snd w @ evs) xs"
    by (cases "step w x") auto
  from Cons.IH [OF fr] have ih: "\<forall>s \<in> set (history (c', snd w @ evs) xs). state c' \<le> s"
    and so: "sorted (history (c', snd w @ evs) xs)" by auto
  from forward_le [OF f] ih have "\<forall>s \<in> set (history (c', snd w @ evs) xs). state (fst w) \<le> s"
    by fastforce
  with so st show ?case by simp
qed

lemma createNamespace_idem: "createNamespace ns (createNamespace ns P) = createNamespace ns P"
  by (simp add: createNamespace_def)

lemma createNamespace_keeps: "P ns' = Some r \<Longrightarrow> createNamespace ns P ns' = Some r"
  by (auto simp: createNamespace_def)

lemma latest_none: "latest load ctx ns ty its = None \<longleftrightarrow> \<not> list_ex (provides load ctx ns ty) its"
  by (induction its) (auto split: option.splits)

lemma loop_latest:
  "\<exists>P'. generate_loop load ctx its P = Inr P' \<and>
        (P ns \<noteq> None \<longrightarrow> P' ns \<noteq> None) \<and>
        stub_at P' ns ty =
          (case latest load ctx ns ty its of Some m \<Rightarrow> Some m | None \<Rightarrow> stub_at P ns ty)"
proof (induction its arbitrary: P)
  case Nil
  show ?case by simp
next
  case (Cons it its)
  show ?case
  proof (cases "truthy (load (path it) ctx it)")
    case False
    with Cons.IH [of P] show ?thesis
      by (auto simp: provides_def split: option.splits)
  next
    case True
    define r where "r = (case P (namespace it) of Some r \<Rightarrow> r | None \<Rightarrow> Map.empty)"
    define Q where
      "Q = (createNamespace (namespace it) P)
             (namespace it \<mapsto> r(serverType it \<mapsto> load (path it) ctx it))"
    have g: "generate_loop load ctx (it # its) P = generate_loop load ctx its Q"
      using True by (simp add: Let_def createNamespace_def Q_def r_def)
    have q1: "P ns \<noteq> None \<longrightarrow> Q ns \<noteq> None"
      by (simp add: Q_def createNamespace_def)
    have q2: "stub_at Q ns ty =
        (if provides load ctx ns ty it then Some (load (path it) ctx it) else stub_at P ns ty)"
      using True
      by (auto simp: Q_def r_def createNamespace_def stub_at_def provides_def split: option.splits)
    from Cons.IH [of Q] obtain P' where
      p: "generate_loop load ctx its Q = Inr P'"
      and n: "Q ns \<noteq> None \<longrightarrow> P' ns \<noteq> None"
      and s: "stub_at P' ns ty =
          (case latest load ctx ns ty its of Some m \<Rightarrow> Some m | None \<Rightarrow> stub_at Q ns ty)"
      by blast
    from g p n q1 s q2 show ?thesis
      by (auto split: option.splits)
  qed
qed

section \<open>The claims\<close>

subsection \<open>C1: the round trip\<close>

text \<open>
  Claim C1. On a client in state \<open>STARTED\<close>, with a router that always resolves to the
  fixed \<open>serverId\<close> and a station that echoes the server id and the envelope to the
  completion handler, the call \<^verbatim>\<open>registry[ns][type].method(hint, a, b, done)\<close> (the stub
  generated from the entry with that namespace and server type, service \<open>sv\<close>) ends with
  \<open>done\<close> called with that same \<open>serverId\<close> and the envelope
  \<^verbatim>\<open>{namespace: ns, serverType: type, service: sv, method: "method", args: [a, b]}\<close>.
  Three steps are enough: the stub call, the router's answer, the station's answer.
\<close>

theorem round_trip:
  "state c = STATE_STARTED \<Longrightarrow>
   msg = JObj [(''namespace'', JStr ns), (''serverType'', JStr ty), (''service'', JStr sv),
               (''method'', JStr ''method''), (''args'', JArr [a, b])] \<Longrightarrow>
   drive (echo_env serverId) (Suc (Suc (Suc n))) (c, log)
     [Stub \<lparr>namespace = ns, serverType = ty, path = p\<rparr> sv ''method'' [hint, a, b, done]] =
     Some (c, log @ [RouterRoute msg hint (c_servers c) done,
                     StationDispatch serverId msg JNull done,
                     StationReply done [serverId, msg]])"
  using proxyCB_route [of c sv "''method''" hint "[a, b]" "done"
      "\<lparr>namespace = ns, serverType = ty, path = p\<rparr>"]
  by (simp add: step_def echo_env_def router_stub_def station_stub_def route_done_def
      rpcInvoke_def)

theorem round_trip_witness:
  "state (sample_client STATE_STARTED) = STATE_STARTED \<and>
   drive (echo_env (JStr ''chat-1'')) (Suc (Suc (Suc 0))) (sample_client STATE_STARTED, [])
     [Stub \<lparr>namespace = ''user'', serverType = ''chat'', path = ''/a''\<rparr> ''chatRemote'' ''method''
        [JNum 7, JStr ''x'', JStr ''y'', JFun 1]] =
     Some (sample_client STATE_STARTED,
       [RouterRoute
          (JObj [(''namespace'', JStr ''user''), (''serverType'', JStr ''chat''),
                 (''service'', JStr ''chatRemote''), (''method'', JStr ''method''),
                 (''args'', JArr [JStr ''x'', JStr ''y''])])
          (JNum 7) (c_servers (sample_client STATE_STARTED)) (JFun 1),
        StationDispatch (JStr ''chat-1'')
          (JObj [(''namespace'', JStr ''user''), (''serverType'', JStr ''chat''),
                 (''service'', JStr ''chatRemote''), (''method'', JStr ''method''),
                 (''args'', JArr [JStr ''x'', JStr ''y''])])
          JNull (JFun 1),
        StationReply (JFun 1)
          [JStr ''chat-1'',
           (JObj [(''namespace'', JStr ''user''), (''serverType'', JStr ''chat''),
                 (''service'', JStr ''chatRemote''), (''method'', JStr ''method''),
                 (''args'', JArr [JStr ''x'', JStr ''y''])])]])"
  using round_trip [of "sample_client STATE_STARTED" _ "''user''" "''chat''" "''chatRemote''"
      "JStr ''x''" "JStr ''y''" "JStr ''chat-1''" 0 "[]" "''/a''" "JNum 7" "JFun 1"]
  by (simp add: sample_client_def)

subsection \<open>C2: the arguments of the envelope\<close>

text \<open>
  Claim C2. A stub call with at least two arguments on a client in state \<open>STARTED\<close>
  builds an envelope whose \<^verbatim>\<open>args\<close> is the argument list without its first element (the
  routing hint) and without its last (the completion handler), whatever the count; with
  exactly two arguments \<^verbatim>\<open>args\<close> is empty.
\<close>

theorem args_stripped:
  "state c = STATE_STARTED \<Longrightarrow> 2 \<le> length args \<Longrightarrow>
   \<exists>hint mid cb.
     args = hint # mid @ [cb] \<and>
     length mid = length args - 2 \<and>
     (length args = 2 \<longrightarrow> mid = []) \<and>
     proxyCB c sv me args att =
       Inr ([RouterRoute
               (JObj [(''namespace'', JStr (namespace att)),
                      (''serverType'', JStr (serverType att)),
                      (''service'', JStr sv),
                      (''method'', JStr me),
                      (''args'', JArr mid)])
               hint (c_servers c) cb], c)"
proof -
  assume s: "state c = STATE_STARTED" and a: "2 \<le> length args"
  from two_or_more [OF a] obtain h mid l where e: "args = h # mid @ [l]" by blast
  show ?thesis
    using proxyCB_route [OF s, of sv me h mid l att] e by auto
qed

theorem args_stripped_witness:
  "state (sample_client STATE_STARTED) = STATE_STARTED \<and>
   2 \<le> length [JNum 7, JFun 1] \<and>
   proxyCB (sample_client STATE_STARTED) ''chatRemote'' ''add'' [JNum 7, JFun 1] item_a =
     Inr ([RouterRoute
             (JObj [(''namespace'', JStr ''user''), (''serverType'', JStr ''chat''),
                 (''service'', JStr ''chatRemote''), (''method'', JStr ''add''),
                 (''args'', JArr [])])
             (JNum 7) (c_servers (sample_client STATE_STARTED)) (JFun 1)],
          sample_client STATE_STARTED)"
  using args_stripped [of "sample_client STATE_STARTED" "[JNum 7, JFun 1]" "''chatRemote''"
      "''add''" item_a]
  by (auto simp: sample_client_def item_a_def Cons_eq_append_conv)

subsection \<open>C3: the completion handler is passed on once\<close>

text \<open>
  Claim C3 says that after every stub call with at least two arguments on a client in
  state \<open>STARTED\<close> the completion handler is invoked exactly once. It is not when the
  client is stopped while the router is working: the router's answer with a server id then
  makes \<^verbatim>\<open>rpcInvoke\<close> raise inside the routing completion, and the handler is passed to
  nobody.
\<close>

theorem dropped_in_flight:
  "run (sample_client STATE_STARTED, []) stopped_in_flight =
     Some (sample_client STATE_CLOSED,
       [RouterRoute
          (JObj [(''namespace'', JStr ''user''), (''serverType'', JStr ''chat''),
                 (''service'', JStr ''chatRemote''), (''method'', JStr ''add''),
                 (''args'', JArr [])])
          (JNum 7) (c_servers (sample_client STATE_STARTED)) (JFun 1),
        StateSet STATE_CLOSED,
        StationStop (JBool False),
        Thrown (Error ''[pomelo-rpc] fail to do rpc invoke for client is not running'')]) \<and>
   handed (JFun 1)
       [RouterRoute
          (JObj [(''namespace'', JStr ''user''), (''serverType'', JStr ''chat''),
                 (''service'', JStr ''chatRemote''), (''method'', JStr ''add''),
                 (''args'', JArr [])])
          (JNum 7) (c_servers (sample_client STATE_STARTED)) (JFun 1),
        StateSet STATE_CLOSED,
        StationStop (JBool False),
        Thrown (Error ''[pomelo-rpc] fail to do rpc invoke for client is not running'')] = 0"
  by (simp add: stopped_in_flight_def step_def op_defs state_defs sample_client_def item_a_def
      shift_def handed_def)

text \<open>
  Claim C3, amended. A stub call with at least two arguments on a client in state
  \<open>STARTED\<close> gives the router the envelope and passes the handler to nobody. When the
  router's completion runs (on the client \<open>c'\<close> as it is then), the handler is passed on
  exactly once: to \<^verbatim>\<open>utils.invokeCallback\<close> with the routing error unchanged when the
  completion reports an error, the station not being reached; or to the station's
  \<^verbatim>\<open>dispatch\<close> when routing yields a server id and the client is still \<open>STARTED\<close>. When it
  yields a server id and the client is no longer \<open>STARTED\<close>, \<^verbatim>\<open>rpcInvoke\<close> raises and the
  handler is not passed on.
\<close>

theorem handler_once:
  "state c = STATE_STARTED \<Longrightarrow> 2 \<le> length args \<Longrightarrow>
   \<exists>hint mid cb msg.
     args = hint # mid @ [cb] \<and>
     proxyCB c sv me args att = Inr ([RouterRoute msg hint (c_servers c) cb], c) \<and>
     handed cb [RouterRoute msg hint (c_servers c) cb] = 0 \<and>
     (truthy err \<longrightarrow>
        route_done c' msg cb err serverId = Inr ([InvokeCallback cb [err]], c') \<and>
        handed cb [InvokeCallback cb [err]] = 1) \<and>
     (\<not> truthy err \<and> state c' = STATE_STARTED \<longrightarrow>
        route_done c' msg cb err serverId = Inr ([StationDispatch serverId msg JNull cb], c') \<and>
        handed cb [StationDispatch serverId msg JNull cb] = 1) \<and>
     (\<not> truthy err \<and> state c' \<noteq> STATE_STARTED \<longrightarrow>
        route_done c' msg cb err serverId =
          Inl (Error ''[pomelo-rpc] fail to do rpc invoke for client is not running''))"
proof -
  assume s: "state c = STATE_STARTED" and a: "2 \<le> length args"
  from two_or_more [OF a] obtain h mid l where e: "args = h # mid @ [l]" by blast
  show ?thesis
    using proxyCB_route [OF s, of sv me h mid l att] e
    by (auto simp: route_done_def rpcInvoke_def handed_def)
qed

theorem handler_once_witness:
  "state (sample_client STATE_STARTED) = STATE_STARTED \<and>
   2 \<le> length [JNum 7, JFun 1] \<and>
   truthy (JErr ''no server'') \<and>
   route_done (sample_client STATE_CLOSED)
     (JObj [(''namespace'', JStr ''user''), (''serverType'', JStr ''chat''),
                 (''service'', JStr ''chatRemote''), (''method'', JStr ''add''),
                 (''args'', JArr [])])
     (JFun 1) (JErr ''no server'') JUndefined =
     Inr ([InvokeCallback (JFun 1) [JErr ''no server'']], sample_client STATE_CLOSED) \<and>
   \<not> truthy JNull \<and>
   route_done (sample_client STATE_STARTED)
     (JObj [(''namespace'', JStr ''user''), (''serverType'', JStr ''chat''),
                 (''service'', JStr ''chatRemote''), (''method'', JStr ''add''),
                 (''args'', JArr [])])
     (JFun 1) JNull (JStr ''chat-1'') =
     Inr ([StationDispatch (JStr ''chat-1'')
            (JObj [(''namespace'', JStr ''user''), (''serverType'', JStr ''chat''),
                 (''service'', JStr ''chatRemote''), (''method'', JStr ''add''),
                 (''args'', JArr [])])
            JNull (JFun 1)], sample_client STATE_STARTED) \<and>
   state (sample_client STATE_CLOSED) \<noteq> STATE_STARTED \<and>
   route_done (sample_client STATE_CLOSED)
     (JObj [(''namespace'', JStr ''user''), (''serverType'', JStr ''chat''),
                 (''service'', JStr ''chatRemote''), (''method'', JStr ''add''),
                 (''args'', JArr [])])
     (JFun 1) JNull (JStr ''chat-1'') =
     Inl (Error ''[pomelo-rpc] fail to do rpc invoke for client is not running'')"
  using handler_once [of "sample_client STATE_STARTED" "[JNum 7, JFun 1]" "''chatRemote''"
      "''add''" item_a "JErr ''no server''" "sample_client STATE_CLOSED" JUndefined]
    handler_once [of "sample_client STATE_STARTED" "[JNum 7, JFun 1]" "''chatRemote''"
      "''add''" item_a JNull "sample_client STATE_STARTED" "JStr ''chat-1''"]
    handler_once [of "sample_client STATE_STARTED" "[JNum 7, JFun 1]" "''chatRemote''"
      "''add''" item_a JNull "sample_client STATE_CLOSED" "JStr ''chat-1''"]
  by (auto simp: sample_client_def item_a_def Cons_eq_append_conv proxyCB_def shift_def
      state_defs)

subsection \<open>C4: a client that is not running\<close>

text \<open>
  Claim C4. On a client whose state is not \<open>STARTED\<close>, \<^verbatim>\<open>rpcInvoke\<close> and every stub
  call raise an error at once; the step adds the thrown error and nothing else, so neither
  the router nor the station is reached.
\<close>

theorem not_started_raises:
  "state c \<noteq> STATE_STARTED \<Longrightarrow>
   rpcInvoke c serverId msg cb =
     Inl (Error ''[pomelo-rpc] fail to do rpc invoke for client is not running'') \<and>
   proxyCB c sv me args att =
     Inl (Error ''[pomelo-rpc] fail to invoke rpc proxy for client is not running'') \<and>
   step (c, log) (RpcInvoke serverId msg cb) =
     Some ([Thrown (Error ''[pomelo-rpc] fail to do rpc invoke for client is not running'')], c) \<and>
   step (c, log) (Stub att sv me args) =
     Some ([Thrown (Error ''[pomelo-rpc] fail to invoke rpc proxy for client is not running'')], c)"
  by (simp add: rpcInvoke_def proxyCB_def step_def)

theorem not_started_raises_witness:
  "state (sample_client STATE_CLOSED) \<noteq> STATE_STARTED \<and>
   rpcInvoke (sample_client STATE_CLOSED) (JStr ''chat-1'') (JObj []) (JFun 1) =
     Inl (Error ''[pomelo-rpc] fail to do rpc invoke for client is not running'') \<and>
   state (sample_client STATE_INITED) \<noteq> STATE_STARTED \<and>
   proxyCB (sample_client STATE_INITED) ''chatRemote'' ''add'' [JNum 7, JFun 1] item_a =
     Inl (Error ''[pomelo-rpc] fail to invoke rpc proxy for client is not running'')"
  using not_started_raises [of "sample_client STATE_CLOSED" "JStr ''chat-1''" "JObj []" "JFun 1"]
    not_started_raises [of "sample_client STATE_INITED" _ _ _ "''chatRemote''" "''add''"
      "[JNum 7, JFun 1]" item_a]
  by (simp add: sample_client_def state_defs)

subsection \<open>C5: fewer than two arguments\<close>

text \<open>
  Claim C5. A stub call with fewer than two arguments on a client in state \<open>STARTED\<close>
  logs one error that names the namespace, the server type, the service and the method,
  and returns: nothing is thrown, the router is not called, no handler is invoked.
\<close>

theorem too_few_arguments:
  "state c = STATE_STARTED \<Longrightarrow> length args < 2 \<Longrightarrow>
   proxyCB c sv me args att =
     Inr ([ConsoleError
             ''[pomelo-rpc] invalid rpc invoke, arguments length less than 2, namespace: %j, serverType, %j, serviceName: %j, methodName: %j''
             [JStr (namespace att), JStr (serverType att), JStr sv, JStr me]], c) \<and>
   step (c, log) (Stub att sv me args) =
     Some ([ConsoleError
             ''[pomelo-rpc] invalid rpc invoke, arguments length less than 2, namespace: %j, serverType, %j, serviceName: %j, methodName: %j''
             [JStr (namespace att), JStr (serverType att), JStr sv, JStr me]], c)"
  by (simp add: proxyCB_def step_def)

theorem too_few_arguments_witness:
  "state (sample_client STATE_STARTED) = STATE_STARTED \<and>
   length [JFun 1] < 2 \<and>
   step (sample_client STATE_STARTED, []) (Stub item_a ''chatRemote'' ''add'' [JFun 1]) =
     Some ([ConsoleError
             ''[pomelo-rpc] invalid rpc invoke, arguments length less than 2, namespace: %j, serverType, %j, serviceName: %j, methodName: %j''
             [JStr ''user'', JStr ''chat'', JStr ''chatRemote'', JStr ''add'']],
           sample_client STATE_STARTED)"
  using too_few_arguments [of "sample_client STATE_STARTED" "[JFun 1]" "''chatRemote''" "''add''"
      item_a "[]"]
  by (simp add: sample_client_def item_a_def)

subsection \<open>C6: construction does not validate\<close>

text \<open>
  Claim C6 says that \<^verbatim>\<open>create\<close> fails when \<^verbatim>\<open>paths\<close> or \<^verbatim>\<open>servers\<close> is missing or empty.
  The source has the check, \<^verbatim>\<open>checkParams\<close>, and never calls it: with an empty paths list
  \<^verbatim>\<open>create\<close> returns a client in state \<open>INITED\<close> whose registry is empty.
\<close>

theorem create_skips_validation:
  "opts_paths sample_opts = Some [] \<and>
   create sample_load (JFun 0) sample_opts =
     Inr ([StationCreate (opts_servers sample_opts) JUndefined, StateSet STATE_INITED],
          sample_client STATE_INITED) \<and>
   proxies (sample_client STATE_INITED) = Map.empty"
  by (simp add: create_def Client_def generateProxies_def sample_opts_def sample_client_def)

subsection \<open>C7: start on a client that has started\<close>

text \<open>
  Claim C7. On a client whose state is above \<open>INITED\<close> (\<open>STARTED\<close> or \<open>CLOSED\<close>),
  \<^verbatim>\<open>start\<close> signals the error \<^verbatim>\<open>rpc client has started.\<close> to the caller's handler before
  it returns, does not call the station, and leaves the client as it was.
\<close>

theorem start_twice:
  "STATE_INITED < state c \<Longrightarrow>
   start c cb = ([InvokeCallback cb [JErr ''rpc client has started.'']], c) \<and>
   step (c, log) (Start cb) = Some ([InvokeCallback cb [JErr ''rpc client has started.'']], c)"
  by (simp add: start_def step_def)

theorem start_twice_witness:
  "STATE_INITED < state (sample_client STATE_STARTED) \<and>
   STATE_INITED < state (sample_client STATE_CLOSED) \<and>
   start (sample_client STATE_STARTED) (JFun 1) =
     ([InvokeCallback (JFun 1) [JErr ''rpc client has started.'']], sample_client STATE_STARTED) \<and>
   start (sample_client STATE_CLOSED) (JFun 1) =
     ([InvokeCallback (JFun 1) [JErr ''rpc client has started.'']], sample_client STATE_CLOSED)"
  using start_twice [of "sample_client STATE_STARTED" "JFun 1" "[]"]
    start_twice [of "sample_client STATE_CLOSED" "JFun 1" "[]"]
  by (simp add: sample_client_def state_defs)

subsection \<open>C8: stop\<close>

text \<open>
  Claim C8. \<^verbatim>\<open>stop(force)\<close> on a client in state \<open>STARTED\<close> first sets the state to
  \<open>CLOSED\<close> and then calls the station's \<^verbatim>\<open>stop\<close> with the same \<open>force\<close>; a second
  \<^verbatim>\<open>stop\<close>, with any flag, only warns. In any other state \<^verbatim>\<open>stop\<close> only warns: the
  client is unchanged and the station is not called.
\<close>

theorem stop_once:
  "(state c = STATE_STARTED \<longrightarrow>
      stop c force = ([StateSet STATE_CLOSED, StationStop force], c\<lparr>state := STATE_CLOSED\<rparr>) \<and>
      stop (c\<lparr>state := STATE_CLOSED\<rparr>) force' =
        ([ConsoleWarn ''[pomelo-rpc] client is not running now.''], c\<lparr>state := STATE_CLOSED\<rparr>)) \<and>
   (state c \<noteq> STATE_STARTED \<longrightarrow>
      stop c force = ([ConsoleWarn ''[pomelo-rpc] client is not running now.''], c))"
  by (simp add: stop_def state_defs)

theorem stop_once_witness:
  "state (sample_client STATE_STARTED) = STATE_STARTED \<and>
   stop (sample_client STATE_STARTED) (JBool True) =
     ([StateSet STATE_CLOSED, StationStop (JBool True)], sample_client STATE_CLOSED) \<and>
   stop (sample_client STATE_CLOSED) (JBool False) =
     ([ConsoleWarn ''[pomelo-rpc] client is not running now.''], sample_client STATE_CLOSED) \<and>
   state (sample_client STATE_INITED) \<noteq> STATE_STARTED \<and>
   stop (sample_client STATE_INITED) (JBool True) =
     ([ConsoleWarn ''[pomelo-rpc] client is not running now.''], sample_client STATE_INITED)"
  using stop_once [of "sample_client STATE_STARTED" "JBool True" "JBool False"]
    stop_once [of "sample_client STATE_INITED" "JBool True" "JBool False"]
  by (simp add: sample_client_def state_defs)

subsection \<open>C9: the state along a run\<close>

text \<open>
  Claim C9 says that over every sequence of operations the state only moves forward. It
  does not when \<^verbatim>\<open>start\<close> is called a second time before the station has answered the
  first call: both calls pass the guard, and the second answer, arriving after a
  \<^verbatim>\<open>stop\<close>, takes the state from \<open>CLOSED\<close> back to \<open>STARTED\<close>.
\<close>

theorem restarted_after_close:
  "create sample_load (JFun 0) sample_opts =
     Inr ([StationCreate (opts_servers sample_opts) JUndefined, StateSet STATE_INITED],
          sample_client STATE_INITED) \<and>
   run (sample_client STATE_INITED,
        [StationCreate (opts_servers sample_opts) JUndefined, StateSet STATE_INITED])
     double_start \<noteq> None \<and>
   history (sample_client STATE_INITED,
        [StationCreate (opts_servers sample_opts) JUndefined, StateSet STATE_INITED])
     double_start =
     [STATE_INITED, STATE_INITED, STATE_INITED, STATE_STARTED, STATE_CLOSED, STATE_STARTED] \<and>
   \<not> forward_run (sample_client STATE_INITED,
        [StationCreate (opts_servers sample_opts) JUndefined, StateSet STATE_INITED])
     double_start"
  by (simp add: create_def Client_def generateProxies_def sample_opts_def double_start_def
      step_def op_defs state_defs sample_client_def forward_def)

text \<open>
  Claim C9, amended. A client is in state \<open>INITED\<close> when \<^verbatim>\<open>create\<close> returns it.
  Whatever happens to it (start, stop, rpcInvoke, a stub call, a filter registration, an
  answer of the station or the router), the state changes only to \<open>STARTED\<close>, on a
  successful start completion of the station, or from \<open>STARTED\<close> to \<open>CLOSED\<close>, on a
  \<^verbatim>\<open>stop\<close>. Over every sequence of such operations in which the station reports at most
  one successful start, the state only moves forward along \<open>INITED\<close>, \<open>STARTED\<close>,
  \<open>CLOSED\<close> and never regresses.
\<close>

theorem state_forward:
  "(create load rm os = Inr (evs0, c) \<longrightarrow> state c = STATE_INITED) \<and>
   (step w x = Some (evs, c') \<longrightarrow>
      state c' = state (fst w) \<or>
      (start_succeeded x \<and> state c' = STATE_STARTED) \<or>
      (is_stop x \<and> state (fst w) = STATE_STARTED \<and> state c' = STATE_CLOSED)) \<and>
   (state (fst w) = STATE_INITED \<and> successes xs \<le> 1 \<and> run w xs \<noteq> None \<longrightarrow>
      forward_run w xs \<and> sorted (history w xs))"
proof -
  have a: "create load rm os = Inr (evs0, c) \<longrightarrow> state c = STATE_INITED"
    using create_state [of load rm os evs0 c] by blast
  have b: "step w x = Some (evs, c') \<longrightarrow>
      state c' = state (fst w) \<or>
      (start_succeeded x \<and> state c' = STATE_STARTED) \<or>
      (is_stop x \<and> state (fst w) = STATE_STARTED \<and> state c' = STATE_CLOSED)"
    using step_state [of w x evs c'] by blast
  have d: "forward_run w xs \<and> sorted (history w xs)"
    if i: "state (fst w) = STATE_INITED" and su: "successes xs \<le> 1" and r: "run w xs \<noteq> None"
  proof -
    from i su have "lifecycle (state (fst w)) (successes xs)" by (simp add: lifecycle_def)
    from forward_run_lifecycle [OF r this] have fr: "forward_run w xs" .
    from forward_run_history [OF fr] fr show ?thesis by simp
  qed
  from a b d show ?thesis by blast
qed

theorem state_forward_witness:
  "create sample_load (JFun 0) sample_opts =
     Inr ([StationCreate (opts_servers sample_opts) JUndefined, StateSet STATE_INITED],
          sample_client STATE_INITED) \<and>
   state (sample_client STATE_INITED) = STATE_INITED \<and>
   step (sample_client STATE_STARTED, []) (Stop (JBool True)) =
     Some ([StateSet STATE_CLOSED, StationStop (JBool True)], sample_client STATE_CLOSED) \<and>
   is_stop (Stop (JBool True)) \<and>
   successes single_start \<le> 1 \<and>
   run (sample_client STATE_INITED,
      [StationCreate (opts_servers sample_opts) JUndefined, StateSet STATE_INITED])
     single_start \<noteq> None \<and>
   forward_run
     (sample_client STATE_INITED,
      [StationCreate (opts_servers sample_opts) JUndefined, StateSet STATE_INITED]) single_start \<and>
   history
     (sample_client STATE_INITED,
      [StationCreate (opts_servers sample_opts) JUndefined, StateSet STATE_INITED]) single_start =
     [STATE_INITED, STATE_INITED, STATE_INITED, STATE_STARTED, STATE_STARTED, STATE_STARTED,
      STATE_CLOSED, STATE_CLOSED]"
proof -
  let ?evs = "[StationCreate (opts_servers sample_opts) JUndefined, StateSet STATE_INITED]"
  have c: "create sample_load (JFun 0) sample_opts = Inr (?evs, sample_client STATE_INITED)"
    by (simp add: create_def Client_def generateProxies_def sample_opts_def sample_client_def)
  have i: "state (fst (sample_client STATE_INITED, ?evs)) = STATE_INITED"
    by (simp add: sample_client_def)
  have t: "step (sample_client STATE_STARTED, []) (Stop (JBool True)) =
     Some ([StateSet STATE_CLOSED, StationStop (JBool True)], sample_client STATE_CLOSED)"
    by (simp add: step_def stop_def sample_client_def)
  have s: "successes single_start \<le> 1"
    by (simp add: successes_def single_start_def)
  have r: "run (sample_client STATE_INITED, ?evs) single_start \<noteq> None"
    by (simp add: single_start_def step_def op_defs state_defs sample_client_def)
  have h: "history (sample_client STATE_INITED, ?evs) single_start =
     [STATE_INITED, STATE_INITED, STATE_INITED, STATE_STARTED, STATE_STARTED, STATE_STARTED,
      STATE_CLOSED, STATE_CLOSED]"
    by (simp add: single_start_def step_def op_defs state_defs sample_client_def)
  from state_forward [of sample_load "JFun 0" sample_opts ?evs "sample_client STATE_INITED"
      "(sample_client STATE_INITED, ?evs)" "Stop (JBool True)" "[]" "sample_client STATE_INITED"
      single_start]
    state_forward [of sample_load "JFun 0" sample_opts ?evs "sample_client STATE_INITED"
      "(sample_client STATE_STARTED, [])" "Stop (JBool True)"
      "[StateSet STATE_CLOSED, StationStop (JBool True)]" "sample_client STATE_CLOSED"
      single_start]
    c i t s r h
  show ?thesis by simp
qed

subsection \<open>C10: the registry during and after the build pass\<close>

text \<open>
  Claim C10 says that a stub stored at \<^verbatim>\<open>registry[namespace][serverType]\<close> for one entry
  of the paths list is never replaced by a later entry. A later entry with the same
  namespace and server type replaces it: the assignment of line 176 overwrites.
\<close>

theorem later_entry_replaces:
  "entry_after sample_load [item_a] ''user'' ''chat'' = Some (JObj [(''/a'', JFun 0)]) \<and>
   entry_after sample_load [item_a, item_b] ''user'' ''chat'' = Some (JObj [(''/b'', JFun 0)])"
  by (simp add: entry_after_def generateProxies_def sample_load_def item_a_def item_b_def
      createNamespace_def stub_at_def Let_def)

text \<open>
  Claim C10, amended. For namespaces and server types that are plain (none of them names a
  property of \<^verbatim>\<open>Object.prototype\<close>): \<^verbatim>\<open>createNamespace\<close> is idempotent and keeps every
  namespace that is there, with its entries. The pass over the paths list, from any
  registry \<open>P\<close>, ends with a registry \<open>P'\<close> in which every namespace of \<open>P\<close> is still there
  and every entry \<^verbatim>\<open>registry[ns][type]\<close> of \<open>P\<close> is still there; the entry is unchanged
  when no entry of the list has that namespace and server type with a module loaded, and
  otherwise it is the module of the last such entry. After the pass no operation on the
  client changes the registry.
\<close>

theorem registry_additive:
  "plain ns \<Longrightarrow> plain ns' \<Longrightarrow> plain ty \<Longrightarrow> list_all plain_item its \<Longrightarrow>
   createNamespace ns (createNamespace ns P) = createNamespace ns P \<and>
   (P ns' = Some r \<longrightarrow> createNamespace ns P ns' = Some r) \<and>
   (\<exists>P'. generate_loop load ctx its P = Inr P' \<and>
      (P ns' \<noteq> None \<longrightarrow> P' ns' \<noteq> None) \<and>
      (stub_at P ns' ty \<noteq> None \<longrightarrow> stub_at P' ns' ty \<noteq> None) \<and>
      (\<not> list_ex (provides load ctx ns' ty) its \<longrightarrow> stub_at P' ns' ty = stub_at P ns' ty) \<and>
      (list_ex (provides load ctx ns' ty) its \<longrightarrow> stub_at P' ns' ty = latest load ctx ns' ty its)) \<and>
   (step (c, log) x = Some (evs, c') \<longrightarrow> proxies c' = proxies c)"
proof -
  from loop_latest [of load ctx its P ns' ty] obtain P' where
    p: "generate_loop load ctx its P = Inr P'"
    and n: "P ns' \<noteq> None \<longrightarrow> P' ns' \<noteq> None"
    and s: "stub_at P' ns' ty =
        (case latest load ctx ns' ty its of Some m \<Rightarrow> Some m | None \<Rightarrow> stub_at P ns' ty)"
    by blast
  have a: "stub_at P ns' ty \<noteq> None \<longrightarrow> stub_at P' ns' ty \<noteq> None"
    using s by (auto split: option.splits)
  have b: "\<not> list_ex (provides load ctx ns' ty) its \<longrightarrow> stub_at P' ns' ty = stub_at P ns' ty"
    using s latest_none [of load ctx ns' ty its] by (auto split: option.splits)
  have d: "list_ex (provides load ctx ns' ty) its \<longrightarrow> stub_at P' ns' ty = latest load ctx ns' ty its"
    using s latest_none [of load ctx ns' ty its] by (auto split: option.splits)
  have e: "step (c, log) x = Some (evs, c') \<longrightarrow> proxies c' = proxies c"
    using step_proxies [of "(c, log)" x evs c'] by simp
  from p n a b d e createNamespace_idem [of ns P] createNamespace_keeps [of P ns' r ns]
  show ?thesis by blast
qed

theorem registry_additive_witness:
  "plain ''user'' \<and> plain ''sys'' \<and> plain ''chat'' \<and>
   list_all plain_item [item_c] \<and> list_all plain_item [item_c, item_b] \<and>
   registry_a ''user'' = Some [''chat'' \<mapsto> JObj [(''/a'', JFun 0)]] \<and>
   createNamespace ''user'' registry_a ''user'' = Some [''chat'' \<mapsto> JObj [(''/a'', JFun 0)]] \<and>
   stub_at registry_a ''user'' ''chat'' = Some (JObj [(''/a'', JFun 0)]) \<and>
   \<not> list_ex (provides sample_load JUndefined ''user'' ''chat'') [item_c] \<and>
   (\<exists>P'. generate_loop sample_load JUndefined [item_c] registry_a = Inr P' \<and>
      stub_at P' ''user'' ''chat'' = Some (JObj [(''/a'', JFun 0)])) \<and>
   list_ex (provides sample_load JUndefined ''user'' ''chat'') [item_c, item_b] \<and>
   (\<exists>P'. generate_loop sample_load JUndefined [item_c, item_b] registry_a = Inr P' \<and>
      stub_at P' ''user'' ''chat'' = Some (JObj [(''/b'', JFun 0)])) \<and>
   step (sample_client STATE_STARTED, []) (Stop (JBool True)) =
     Some ([StateSet STATE_CLOSED, StationStop (JBool True)], sample_client STATE_CLOSED) \<and>
   proxies (sample_client STATE_CLOSED) = proxies (sample_client STATE_STARTED)"
proof -
  have pu: "plain ''user''" and ps: "plain ''sys''" and pc: "plain ''chat''"
    by (simp_all add: plain_def prototype_names_def)
  have i1: "list_all plain_item [item_c]"
    using ps pc by (simp add: plain_item_def item_c_def)
  have i2: "list_all plain_item [item_c, item_b]"
    using pu ps pc by (simp add: plain_item_def item_c_def item_b_def)
  have a: "registry_a ''user'' = Some [''chat'' \<mapsto> JObj [(''/a'', JFun 0)]]"
    by (simp add: registry_a_def)
  have b: "stub_at registry_a ''user'' ''chat'' = Some (JObj [(''/a'', JFun 0)])"
    by (simp add: registry_a_def stub_at_def)
  have n: "\<not> list_ex (provides sample_load JUndefined ''user'' ''chat'') [item_c]"
    by (simp add: provides_def item_c_def)
  have y: "list_ex (provides sample_load JUndefined ''user'' ''chat'') [item_c, item_b]"
    by (simp add: provides_def item_c_def item_b_def sample_load_def)
  have l: "latest sample_load JUndefined ''user'' ''chat'' [item_c, item_b] =
      Some (JObj [(''/b'', JFun 0)])"
    by (simp add: provides_def item_c_def item_b_def sample_load_def)
  have s: "step (sample_client STATE_STARTED, []) (Stop (JBool True)) =
     Some ([StateSet STATE_CLOSED, StationStop (JBool True)], sample_client STATE_CLOSED)"
    by (simp add: step_def stop_def sample_client_def)
  from registry_additive [OF pu pu pc i1, of registry_a
      "[''chat'' \<mapsto> JObj [(''/a'', JFun 0)]]"
      sample_load JUndefined "sample_client STATE_STARTED" "[]"
      "Stop (JBool True)" "[StateSet STATE_CLOSED, StationStop (JBool True)]"
      "sample_client STATE_CLOSED"]
    registry_additive [OF pu pu pc i2, of registry_a
      "[''chat'' \<mapsto> JObj [(''/a'', JFun 0)]]"
      sample_load JUndefined "sample_client STATE_STARTED" "[]"
      "Stop (JBool True)" "[StateSet STATE_CLOSED, StationStop (JBool True)]"
      "sample_client STATE_CLOSED"]
    pu ps pc i1 i2 a b n y l s
  show ?thesis by auto
qed

end
